theory Spec2Isabelle
  imports Main "HOL-Library.Word"
begin

unbundle bit_operations_syntax

section \<open>Memory and objects\<close>

text \<open>
  \<^verbatim>\<open>using byte = unsigned char;\<close>  A byte is the fundamental unit of storage.
\<close>

type_synonym byte = "8 word"

text \<open>
  The object representation of a \<open>w\<close>-bit scalar: its \<open>n\<close> bytes, least significant
  first (a little-endian machine, the LP64 data model).  This is what
  \<^verbatim>\<open>std::addressof(t)\<close> points to.
\<close>

definition le_bytes :: "nat \<Rightarrow> 'a::len word \<Rightarrow> byte list" where
  "le_bytes n w = map (\<lambda>i. ucast (drop_bit (8 * i) w)) [0..<n]"

text \<open>
  Values of the scalar types that \<^verbatim>\<open>trivially_comparable\<close> accepts: the integral
  types (\<^verbatim>\<open>bool\<close>, the character types, and the integer types of 8, 16, 32 and 64
  bits; a signed and an unsigned type of one width share their object
  representation) and the pointer types.
\<close>

datatype scalar =
    Bool bool
  | Int8 "8 word"
  | Int16 "16 word"
  | Int32 "32 word"
  | Int64 "64 word"
  | Ptr "64 word"

fun sizeof :: "scalar \<Rightarrow> nat" where
  "sizeof (Bool b) = 1"
| "sizeof (Int8 w) = 1"
| "sizeof (Int16 w) = 2"
| "sizeof (Int32 w) = 4"
| "sizeof (Int64 w) = 8"
| "sizeof (Ptr w) = 8"

fun storage :: "scalar \<Rightarrow> byte list" where
  "storage (Bool b) = [if b then 1 else 0]"
| "storage (Int8 w) = le_bytes 1 w"
| "storage (Int16 w) = le_bytes 2 w"
| "storage (Int32 w) = le_bytes 4 w"
| "storage (Int64 w) = le_bytes 8 w"
| "storage (Ptr w) = le_bytes 8 w"

text \<open>
  Floating point objects, as bit patterns.  \<^verbatim>\<open>float\<close> is IEEE 754 binary32 (23
  fraction bits) and \<^verbatim>\<open>double\<close> is binary64 (52 fraction bits): the top bit is
  the sign, the remaining bits are the exponent and the fraction.
  \<^verbatim>\<open>long double\<close> is the x87 extended format of this data model: an object of
  16 bytes, of which the first 10 hold the value (the sign, 15 exponent bits and
  a significand of 64 bits) and the last 6 are padding.  The second argument of
  \<open>Long_double\<close> is that padding.  It is no part of the value: it is what the
  six bytes of the object at hand happen to hold.  The object that \<open>hash_append\<close>
  reads is its parameter \<^verbatim>\<open>T t\<close>, a copy of the argument, and neither the copy
  nor an assignment to it has to write the padding.
\<close>

datatype floating = Float "32 word" | Double "64 word" | Long_double "80 word" "48 word"

definition magnitude :: "'a::len word \<Rightarrow> 'a word" where
  "magnitude w = w AND mask (LENGTH('a) - 1)"

text \<open>A NaN has all exponent bits set and a fraction that is not zero.\<close>

definition is_nan :: "nat \<Rightarrow> 'a::len word \<Rightarrow> bool" where
  "is_nan f w \<longleftrightarrow> push_bit f (mask (LENGTH('a) - 1 - f)) < magnitude w"

text \<open>
  The comparison \<^verbatim>\<open>==\<close> of IEEE 754 on bit patterns with \<open>f\<close> fraction bits: a NaN
  equals nothing, the two zeros equal each other, and every other value has one
  bit pattern.
\<close>

definition ieee_eq :: "nat \<Rightarrow> 'a::len word \<Rightarrow> 'a word \<Rightarrow> bool" where
  "ieee_eq f x y \<longleftrightarrow>
     \<not> is_nan f x \<and> \<not> is_nan f y \<and> (x = y \<or> (magnitude x = 0 \<and> magnitude y = 0))"

text \<open>
  The comparison with zero on the x87 extended format.  It is true of the two
  zeros and of nothing else: every other bit pattern is a number other than
  zero, an infinity, a NaN or an encoding the processor does not support.
\<close>

definition x87_equals_zero :: "80 word \<Rightarrow> bool" where
  "x87_equals_zero w \<longleftrightarrow> magnitude w = 0"

text \<open>\<^verbatim>\<open>t == 0\<close>: the integer 0 converts to positive zero, whose bits are all 0.\<close>

fun fp_equals_zero :: "floating \<Rightarrow> bool" where
  "fp_equals_zero (Float w) = ieee_eq 23 w 0"
| "fp_equals_zero (Double w) = ieee_eq 52 w 0"
| "fp_equals_zero (Long_double w p) = x87_equals_zero w"

text \<open>
  \<^verbatim>\<open>t = 0\<close>: the value of the same type with all bits 0.  The store writes the
  bytes of the value and leaves the padding of the object as it is.
\<close>

fun fp_assign_zero :: "floating \<Rightarrow> floating" where
  "fp_assign_zero (Float w) = Float 0"
| "fp_assign_zero (Double w) = Double 0"
| "fp_assign_zero (Long_double w p) = Long_double 0 p"

fun fp_sizeof :: "floating \<Rightarrow> nat" where
  "fp_sizeof (Float w) = 4"
| "fp_sizeof (Double w) = 8"
| "fp_sizeof (Long_double w p) = 16"

text \<open>The bytes of the object that hold the value, and its padding bytes.\<close>

fun fp_value_bytes :: "floating \<Rightarrow> byte list" where
  "fp_value_bytes (Float w) = le_bytes 4 w"
| "fp_value_bytes (Double w) = le_bytes 8 w"
| "fp_value_bytes (Long_double w p) = le_bytes 10 w"

fun fp_padding :: "floating \<Rightarrow> byte list" where
  "fp_padding (Float w) = []"
| "fp_padding (Double w) = []"
| "fp_padding (Long_double w p) = le_bytes 6 p"

definition fp_storage :: "floating \<Rightarrow> byte list" where
  "fp_storage t = fp_value_bytes t @ fp_padding t"


section \<open>Trivially comparable types\<close>

text \<open>
  The types the trait is asked about.  \<open>User_t\<close> stands for a user-defined type
  (a class, a union or an enumeration), named.
\<close>

datatype integral_kind = Bool_k | Char_k | Short_k | Int_k | Long_k | Long_long_k

datatype floating_kind = Float_k | Double_k | Long_double_k

datatype ctype =
    Integral_t integral_kind
  | Floating_t floating_kind
  | Pointer_t ctype
  | Array_t ctype nat
  | Unbounded_array_t ctype
  | User_t string

text \<open>\<^verbatim>\<open>std::remove_extent_t<T>\<close>: strips one array dimension, if there is one.\<close>

fun remove_extent :: "ctype \<Rightarrow> ctype" where
  "remove_extent (Array_t T n) = T"
| "remove_extent (Unbounded_array_t T) = T"
| "remove_extent T = T"

text \<open>
  \<^verbatim>\<open>template<typename T> struct trivially_comparable : std::false_type { };\<close>
  with its partial specialisations for integral types, \<^verbatim>\<open>T*\<close>, \<^verbatim>\<open>T[N]\<close> and
  \<^verbatim>\<open>T[]\<close>.  The trait is open: a program may specialise it for its own types,
  and \<open>user\<close> says for which ones it has done so with \<^verbatim>\<open>std::true_type\<close>.
\<close>

function trivially_comparable :: "(string \<Rightarrow> bool) \<Rightarrow> ctype \<Rightarrow> bool" where
  "trivially_comparable user (Integral_t k) = True"
| "trivially_comparable user (Pointer_t T) = True"
| "trivially_comparable user (Array_t T n) = trivially_comparable user (remove_extent T)"
| "trivially_comparable user (Unbounded_array_t T) = trivially_comparable user (remove_extent T)"
| "trivially_comparable user (Floating_t k) = False"
| "trivially_comparable user (User_t c) = user c"
  by pat_completeness auto
termination
proof (relation "measure (\<lambda>(user, T). size T)")
  show "wf (measure (\<lambda>(user :: string \<Rightarrow> bool, T :: ctype). size T))"
    by simp
next
  fix user :: "string \<Rightarrow> bool" and T n
  have "size (remove_extent T) \<le> size T"
    by (cases T) simp_all
  then show "((user, remove_extent T), (user, Array_t T n)) \<in> measure (\<lambda>(user, T). size T)"
    by simp
next
  fix user :: "string \<Rightarrow> bool" and T
  have "size (remove_extent T) \<le> size T"
    by (cases T) simp_all
  then show "((user, remove_extent T), (user, Unbounded_array_t T)) \<in> measure (\<lambda>(user, T). size T)"
    by simp
qed


section \<open>Hash algorithms\<close>

text \<open>
  The concept \<^verbatim>\<open>Hash_algorithm<H>\<close> asks for \<^verbatim>\<open>h(p, n)\<close> and \<^verbatim>\<open>h.value()\<close> of a
  copyable \<open>H\<close>.  An algorithm is given by these operations on its state \<open>'s\<close>.
  The pointer \<open>p\<close> is modelled by the bytes that can be read from it.  The
  universal hash function uses two things more, which the concept does not ask
  for: the default constructor (\<open>construct\<close>, the state of every hasher
  declared as \<^verbatim>\<open>H hasher;\<close>) and an implicit conversion of \<open>H\<close> to the
  result type (\<open>conversion\<close>, absent when \<open>H\<close> declares none).  An \<open>H\<close>
  whose default constructor leaves its state uninitialised has no such state:
  a program that hashes with it reads an indeterminate value, and is not
  modelled.
\<close>

record ('s, 'r) hash_algorithm =
  construct :: 's
  call :: "'s \<Rightarrow> byte list \<Rightarrow> nat \<Rightarrow> 's"
  value_of :: "'s \<Rightarrow> 'r"
  conversion :: "('s \<Rightarrow> 'r) option"

text \<open>
  \<^verbatim>\<open>struct debug_hasher\<close> records the bytes appended to it in \<^verbatim>\<open>buf_\<close> (the
  field \<open>buf\<close> here, since a name cannot end in an underscore).
  \<^verbatim>\<open>buf_.insert(buf_.end(), buf, buf + len)\<close> appends the \<open>len\<close> bytes at \<open>key\<close>.
  No call in this library asks for more bytes than the object at \<open>key\<close> has, so
  reading past its end is not modelled.  The struct has a default constructor
  (the empty vector) and no conversion operator.
\<close>

record debug_hasher =
  buf :: "byte list"

definition debug_call :: "debug_hasher \<Rightarrow> byte list \<Rightarrow> nat \<Rightarrow> debug_hasher" where
  "debug_call h key len = h\<lparr>buf := buf h @ take len key\<rparr>"

definition debug_value :: "debug_hasher \<Rightarrow> byte list" where
  "debug_value h = buf h"

definition Debug :: "(debug_hasher, byte list) hash_algorithm" where
  "Debug = \<lparr>construct = \<lparr>buf = []\<rparr>, call = debug_call, value_of = debug_value,
            conversion = None\<rparr>"


section \<open>Hash append\<close>

text \<open>
  The values \<^verbatim>\<open>hash_append(h, t)\<close> is called on inside the library, one
  constructor for each overload that a call with a single value selects: a
  trivially comparable scalar, a floating point value, and an array of elements
  that are hashable and not trivially comparable (floating point values, or such
  arrays again).
\<close>

datatype hashable =
    TC scalar
  | FP floating
  | Array "hashable list"

text \<open>
  The overload for arrays of non-trivially comparable type:
  \<^verbatim>\<open>for (T const& x : a) hash_append(h, a);\<close>
  The call in the loop body passes the array \<open>a\<close>, so it resolves to this same
  overload.  \<open>xs\<close> holds the elements the loop has still to visit; the overload
  is entered with \<open>xs = a\<close>.  A call that does not return is \<open>None\<close>.
\<close>

partial_function (option) array_loop :: "'s \<Rightarrow> 'v list \<Rightarrow> 'v list \<Rightarrow> 's option" where
  "array_loop h a xs =
     (case xs of
        [] \<Rightarrow> Some h
      | x # rest \<Rightarrow> Option.bind (array_loop h a a) (\<lambda>h'. array_loop h' a rest))"

definition hash_append_array :: "'s \<Rightarrow> 'v list \<Rightarrow> 's option" where
  "hash_append_array h a = array_loop h a a"

text \<open>\<open>hash_append\<close> is the call with a single value.\<close>

fun hash_append :: "('s, 'r) hash_algorithm \<Rightarrow> 's \<Rightarrow> hashable \<Rightarrow> 's option" where
  "hash_append H h (TC t) = Some (call H h (storage t) (sizeof t))"
| "hash_append H h (FP t) =
     (let t' = (if fp_equals_zero t then fp_assign_zero t else t)
      in Some (call H h (fp_storage t') (fp_sizeof t')))"
| "hash_append H h (Array a) = hash_append_array h a"

text \<open>
  The overload for arrays of trivially comparable elements:
  \<^verbatim>\<open>h(a, sizeof(a));\<close>
  A call \<^verbatim>\<open>hash_append(h, a)\<close> with such an array matches the overload for
  arrays of hashable elements as well, and neither of the two is preferred to
  the other, so the call with a single value does not reach this overload.
\<close>

definition hash_append_tc_array :: "('s, 'r) hash_algorithm \<Rightarrow> 's \<Rightarrow> scalar list \<Rightarrow> 's option" where
  "hash_append_tc_array H h a =
     Some (call H h (concat (map storage a)) (sum_list (map sizeof a)))"

text \<open>
  The iterator range overload:
  \<^verbatim>\<open>while (first != last) { hash_append(h, *first); ++first; }\<close>
  on the elements between \<open>first\<close> and \<open>last\<close>.
\<close>

fun hash_append_range :: "('s, 'r) hash_algorithm \<Rightarrow> 's \<Rightarrow> hashable list \<Rightarrow> 's option" where
  "hash_append_range H h [] = Some h"
| "hash_append_range H h (x # xs) =
     (case hash_append H h x of
        None \<Rightarrow> None
      | Some h' \<Rightarrow> hash_append_range H h' xs)"

text \<open>
  The overload of the test program for \<^verbatim>\<open>std::vector\<close>:
  \<^verbatim>\<open>hash_append(h, v.begin(), v.end());\<close>
  It is declared outside the namespace of the library, so the calls inside the
  library do not find it: a vector is hashed by a call of the test program only,
  and is no element of an array or of another vector.
\<close>

definition hash_append_vector :: "('s, 'r) hash_algorithm \<Rightarrow> 's \<Rightarrow> hashable list \<Rightarrow> 's option" where
  "hash_append_vector H h v = hash_append_range H h v"

text \<open>
  The overload for pointers to trivially comparable types:
  \<^verbatim>\<open>h(first, last - first);\<close>
  \<open>ts\<close> are the elements between \<open>first\<close> and \<open>last\<close>; their storage is what
  \<open>first\<close> points to, and \<open>last - first\<close> is their number.
\<close>

definition hash_append_pointers :: "('s, 'r) hash_algorithm \<Rightarrow> 's \<Rightarrow> scalar list \<Rightarrow> 's option" where
  "hash_append_pointers H h ts = Some (call H h (concat (map storage ts)) (length ts))"

text \<open>
  A call \<^verbatim>\<open>hash_append(h, x, y)\<close> with two values has three candidates: the
  variadic overload and the two range overloads.  The range overloads take
  their arguments by value, so an array argument reaches them as a pointer to
  its first element.  A range overload is viable when \<open>x\<close> and \<open>y\<close> are, or
  so become, pointers of one type, and it is then preferred to the variadic
  overload: the overload for pointers when the type is \<^verbatim>\<open>T const*\<close> with a
  trivially comparable \<open>T\<close>, the iterator range overload for the other
  pointers to objects of a hashable type.  The variadic overload stays for
  pointers of different types, for \<^verbatim>\<open>void*\<close>, for pointers to what is not
  hashable, and whenever one of the two values is neither a pointer nor an array.

  The values of the model carry neither the type of what a pointer points to
  nor the memory there.  A function \<open>M\<close> supplies both: for two such arguments
  \<open>x\<close> and \<open>y\<close>, \<open>M x y\<close> is the overload selected for them, with the objects
  of the range they delimit.
\<close>

datatype selected =
    Variadic
  | Pointer_range "scalar list"
  | Iterator_range "hashable list"

type_synonym pointers = "hashable \<Rightarrow> hashable \<Rightarrow> selected"

fun decays_to_pointer :: "hashable \<Rightarrow> bool" where
  "decays_to_pointer (TC (Ptr p)) = True"
| "decays_to_pointer (Array a) = True"
| "decays_to_pointer x = False"

definition select :: "pointers \<Rightarrow> hashable \<Rightarrow> hashable \<Rightarrow> selected" where
  "select M x y = (if decays_to_pointer x \<and> decays_to_pointer y then M x y else Variadic)"

text \<open>
  The call \<^verbatim>\<open>hash_append(h, x, y)\<close>.  When the variadic overload is selected
  its pack is empty, and its body is
  \<^verbatim>\<open>hash_append(h, x); hash_append(h, y);\<close>
\<close>

definition hash_append_two ::
  "pointers \<Rightarrow> ('s, 'r) hash_algorithm \<Rightarrow> 's \<Rightarrow> hashable \<Rightarrow> hashable \<Rightarrow> 's option"
where
  "hash_append_two M H h x y =
     (case select M x y of
        Variadic \<Rightarrow>
          (case hash_append H h x of
             None \<Rightarrow> None
           | Some h' \<Rightarrow> hash_append H h' y)
      | Pointer_range ts \<Rightarrow> hash_append_pointers H h ts
      | Iterator_range xs \<Rightarrow> hash_append_range H h xs)"

text \<open>
  The variadic overload:
  \<^verbatim>\<open>hash_append(h, t0); hash_append(h, t1, ts...);\<close>
  With an empty pack the second call is the call with a single value, with a
  pack of one value it is the call with two values above, and with a longer pack
  only the variadic overload takes that many arguments.
\<close>

fun hash_append_variadic ::
  "pointers \<Rightarrow> ('s, 'r) hash_algorithm \<Rightarrow> 's \<Rightarrow> hashable \<Rightarrow> hashable \<Rightarrow> hashable list \<Rightarrow> 's option"
where
  "hash_append_variadic M H h t0 t1 [] =
     (case hash_append H h t0 of
        None \<Rightarrow> None
      | Some h' \<Rightarrow> hash_append H h' t1)"
| "hash_append_variadic M H h t0 t1 [t2] =
     (case hash_append H h t0 of
        None \<Rightarrow> None
      | Some h' \<Rightarrow> hash_append_two M H h' t1 t2)"
| "hash_append_variadic M H h t0 t1 (t2 # t3 # ts) =
     (case hash_append H h t0 of
        None \<Rightarrow> None
      | Some h' \<Rightarrow> hash_append_variadic M H h' t1 t2 (t3 # ts))"



section \<open>Universal hash functions\<close>

datatype error = No_conversion

text \<open>
  \<^verbatim>\<open>H hasher; hash_append(hasher, t); return hasher;\<close>
  The return statement converts the hasher to \<^verbatim>\<open>result_type\<close> implicitly; a
  program that instantiates it for an \<open>H\<close> without that conversion is rejected.
\<close>

definition finish :: "('s, 'r) hash_algorithm \<Rightarrow> 's option \<Rightarrow> error + 'r option" where
  "finish H r = (case conversion H of
                   None \<Rightarrow> Inl No_conversion
                 | Some conv \<Rightarrow> Inr (map_option conv r))"

definition hash :: "('s, 'r) hash_algorithm \<Rightarrow> hashable \<Rightarrow> error + 'r option" where
  "hash H t = (let hasher = construct H in finish H (hash_append H hasher t))"

text \<open>
  The bytes a value sends to a debug hasher that starts empty, read with
  \<^verbatim>\<open>value()\<close>.
\<close>

definition encoding :: "hashable \<Rightarrow> byte list option" where
  "encoding t = map_option debug_value (hash_append Debug (construct Debug) t)"


text \<open>The debug hasher \<open>h\<close> after it has recorded the bytes \<open>bs\<close>.\<close>

definition appended :: "debug_hasher \<Rightarrow> byte list \<Rightarrow> debug_hasher" where
  "appended h bs = h\<lparr>buf := buf h @ bs\<rparr>"


section \<open>Storage\<close>

lemma length_le_bytes: "length (le_bytes n w) = n"
  by (simp add: le_bytes_def)

lemma bit_le_bytes:
  "j < n \<Longrightarrow> i < 8 \<Longrightarrow> bit (le_bytes n w ! j) i \<longleftrightarrow> bit w (8 * j + i)"
  by (simp add: le_bytes_def bit_simps)

lemma le_bytes_zero: "le_bytes n (0 :: 'a::len word) = replicate n 0"
  by (simp add: le_bytes_def map_replicate_const)

lemma length_storage: "length (storage v) = sizeof v"
  by (cases v) (simp_all add: length_le_bytes)

lemma storage_ints:
  "concat (map storage [Int32 1, Int32 2, Int32 3]) = [1, 0, 0, 0, 2, 0, 0, 0, 3, 0, 0, 0]"
  by (simp add: le_bytes_def upt_conv_Cons)

lemma Debug_simps:
  "construct Debug = \<lparr>buf = []\<rparr>"
  "call Debug = debug_call"
  "value_of Debug = debug_value"
  "conversion Debug = None"
  by (simp_all add: Debug_def)

lemma fresh_Debug: "construct Debug\<lparr>buf := buf (construct Debug) @ bs\<rparr> = \<lparr>buf = bs\<rparr>"
  by (simp add: Debug_simps)

lemma encoding_TC: "encoding (TC t) = Some (storage t)"
  using length_storage [of t]
  by (simp add: encoding_def Debug_simps debug_call_def debug_value_def)


section \<open>Scalars are hashed as their storage\<close>

text \<open>
  C5.  For a trivially comparable scalar \<open>v\<close>, \<open>hash_append\<close> on the debug hasher
  returns, and what it appends to the recorded bytes is the storage of \<open>v\<close>, all
  \<open>sizeof v\<close> bytes of it and nothing else; the 32-bit integer 5 appends
  \<open>05 00 00 00\<close>.
\<close>

theorem scalar_absorbs_storage:
  "hash_append Debug h (TC v) = Some (h\<lparr>buf := buf h @ storage v\<rparr>)
   \<and> length (storage v) = sizeof v
   \<and> encoding (TC v) = Some (storage v)
   \<and> encoding (TC (Int32 5)) = Some [5, 0, 0, 0]"
proof -
  have len: "length (storage v) = sizeof v"
    by (rule length_storage)
  have run: "hash_append Debug h (TC v) = Some (h\<lparr>buf := buf h @ storage v\<rparr>)"
    using len by (simp add: Debug_simps debug_call_def)
  have five: "storage (Int32 5) = [5, 0, 0, 0]"
    by (simp add: le_bytes_def upt_conv_Cons)
  from run len encoding_TC [of v] encoding_TC [of "Int32 5"] five show ?thesis
    by simp
qed


section \<open>Floating point zeros\<close>

lemma ieee_eq_zero: "ieee_eq f w 0 \<longleftrightarrow> magnitude w = 0"
  by (auto simp: ieee_eq_def is_nan_def magnitude_def)

lemma magnitude_zero_bits:
  "magnitude (w :: 'a::len word) = 0 \<longleftrightarrow> (\<forall>n < LENGTH('a) - 1. \<not> bit w n)"
proof
  assume z: "magnitude w = 0"
  show "\<forall>n < LENGTH('a) - 1. \<not> bit w n"
  proof (intro allI impI)
    fix n assume n: "n < LENGTH('a) - 1"
    have "bit (magnitude w) n \<longleftrightarrow> bit w n"
      using n by (auto simp add: magnitude_def bit_simps)
    with z show "\<not> bit w n" by simp
  qed
next
  assume a: "\<forall>n < LENGTH('a) - 1. \<not> bit w n"
  show "magnitude w = 0"
    by (rule bit_eqI) (use a in \<open>auto simp add: magnitude_def bit_simps\<close>)
qed

text \<open>The bit patterns that compare equal to 0 are the two zeros, and no other.\<close>

lemma magnitude_zero_iff:
  "magnitude (w :: 'a::len word) = 0 \<longleftrightarrow> w = 0 \<or> w = push_bit (LENGTH('a) - 1) 1"
proof
  assume "magnitude w = 0"
  then have low: "\<And>n. n < LENGTH('a) - 1 \<Longrightarrow> \<not> bit w n"
    by (simp add: magnitude_zero_bits)
  show "w = 0 \<or> w = push_bit (LENGTH('a) - 1) 1"
  proof (cases "bit w (LENGTH('a) - 1)")
    case True
    have "w = push_bit (LENGTH('a) - 1) 1"
    proof (rule bit_word_eqI)
      fix n assume "n < LENGTH('a)"
      then have "n < LENGTH('a) - 1 \<or> n = LENGTH('a) - 1" by arith
      then show "bit w n \<longleftrightarrow> bit (push_bit (LENGTH('a) - 1) 1 :: 'a word) n"
        using low True by (auto simp: bit_simps)
    qed
    then show ?thesis ..
  next
    case False
    have "w = 0"
    proof (rule bit_word_eqI)
      fix n assume "n < LENGTH('a)"
      then have "n < LENGTH('a) - 1 \<or> n = LENGTH('a) - 1" by arith
      then show "bit w n \<longleftrightarrow> bit (0 :: 'a word) n"
        using low False by auto
    qed
    then show ?thesis ..
  qed
next
  assume "w = 0 \<or> w = push_bit (LENGTH('a) - 1) 1"
  then show "magnitude w = 0"
    by (auto simp: magnitude_zero_bits bit_simps)
qed

lemma fp_equals_zero_iff:
  "fp_equals_zero (Float w) \<longleftrightarrow> w = 0 \<or> w = 0x80000000"
  "fp_equals_zero (Double v) \<longleftrightarrow> v = 0 \<or> v = 0x8000000000000000"
  "fp_equals_zero (Long_double u p) \<longleftrightarrow> u = 0 \<or> u = 0x80000000000000000000"
  by (simp_all add: ieee_eq_zero x87_equals_zero_def magnitude_zero_iff)

lemma fp_equals_zero_assign: "fp_equals_zero (fp_assign_zero x)"
  by (cases x) (simp_all add: ieee_eq_zero x87_equals_zero_def magnitude_def)

lemma fp_value_bytes_assign_zero:
  "fp_value_bytes (fp_assign_zero x) = replicate (length (fp_value_bytes x)) 0"
  by (cases x) (simp_all add: le_bytes_zero length_le_bytes)

lemma fp_padding_assign_zero: "fp_padding (fp_assign_zero x) = fp_padding x"
  by (cases x) simp_all

lemma fp_sizeof_assign_zero: "fp_sizeof (fp_assign_zero x) = fp_sizeof x"
  by (cases x) simp_all

lemma fp_assign_zero_twice: "fp_assign_zero (fp_assign_zero x) = fp_assign_zero x"
  by (cases x) simp_all

lemma length_fp_storage: "length (fp_storage x) = fp_sizeof x"
  by (cases x) (simp_all add: fp_storage_def length_le_bytes)

lemma encoding_FP:
  "encoding (FP x) = Some (fp_storage (if fp_equals_zero x then fp_assign_zero x else x))"
  using length_fp_storage [of x] length_fp_storage [of "fp_assign_zero x"]
  by (simp add: encoding_def Debug_simps debug_call_def debug_value_def Let_def
      fp_sizeof_assign_zero)

text \<open>
  A floating point object that compares equal to 0 is hashed as the object it
  becomes once 0 is assigned to it.  The bytes of its value are sent as zero
  bytes, and its padding as it is.
\<close>

lemma zero_hashes_as_assigned:
  assumes "fp_equals_zero x"
  shows "hash_append H h (FP x) = hash_append H h (FP (fp_assign_zero x))"
    and "encoding (FP x) = Some (replicate (length (fp_value_bytes x)) 0 @ fp_padding x)"
proof -
  show "hash_append H h (FP x) = hash_append H h (FP (fp_assign_zero x))"
    using assms fp_equals_zero_assign [of x] by (simp add: fp_assign_zero_twice)
  show "encoding (FP x) = Some (replicate (length (fp_value_bytes x)) 0 @ fp_padding x)"
    using assms
    by (simp add: encoding_FP fp_storage_def fp_value_bytes_assign_zero fp_padding_assign_zero)
qed

text \<open>
  For \<^verbatim>\<open>float\<close> and \<^verbatim>\<open>double\<close>, whose objects have no padding, every zero is
  hashed exactly as positive zero: 4 and 8 zero bytes.
\<close>

lemma float_zero_hashes_as_positive_zero:
  assumes "fp_equals_zero (Float w)"
  shows "hash_append H h (FP (Float w)) = hash_append H h (FP (Float 0))"
    and "hash H (FP (Float w)) = hash H (FP (Float 0))"
    and "encoding (FP (Float w)) = encoding (FP (Float 0))"
    and "encoding (FP (Float w)) = Some [0, 0, 0, 0]"
proof -
  show run: "hash_append G g (FP (Float w)) = hash_append G g (FP (Float 0))"
    for G :: "('s, 'r) hash_algorithm" and g
    using zero_hashes_as_assigned(1) [OF assms, of G g] by (simp only: fp_assign_zero.simps)
  show "hash H (FP (Float w)) = hash H (FP (Float 0))"
    unfolding hash_def Let_def run ..
  show "encoding (FP (Float w)) = encoding (FP (Float 0))"
    unfolding encoding_def run ..
  show "encoding (FP (Float w)) = Some [0, 0, 0, 0]"
    using zero_hashes_as_assigned(2) [OF assms]
    by (simp add: length_le_bytes numeral_eq_Suc)
qed

lemma double_zero_hashes_as_positive_zero:
  assumes "fp_equals_zero (Double w)"
  shows "hash_append H h (FP (Double w)) = hash_append H h (FP (Double 0))"
    and "hash H (FP (Double w)) = hash H (FP (Double 0))"
    and "encoding (FP (Double w)) = encoding (FP (Double 0))"
    and "encoding (FP (Double w)) = Some [0, 0, 0, 0, 0, 0, 0, 0]"
proof -
  show run: "hash_append G g (FP (Double w)) = hash_append G g (FP (Double 0))"
    for G :: "('s, 'r) hash_algorithm" and g
    using zero_hashes_as_assigned(1) [OF assms, of G g] by (simp only: fp_assign_zero.simps)
  show "hash H (FP (Double w)) = hash H (FP (Double 0))"
    unfolding hash_def Let_def run ..
  show "encoding (FP (Double w)) = encoding (FP (Double 0))"
    unfolding encoding_def run ..
  show "encoding (FP (Double w)) = Some [0, 0, 0, 0, 0, 0, 0, 0]"
    using zero_hashes_as_assigned(2) [OF assms]
    by (simp add: length_le_bytes numeral_eq_Suc)
qed

text \<open>
  A \<^verbatim>\<open>long double\<close> is hashed as the ten bytes of its value, zeros normalised,
  followed by the six padding bytes of the parameter object.
\<close>

lemma encoding_Long_double:
  "encoding (FP (Long_double w p)) =
     Some ((if w = 0 \<or> w = 0x80000000000000000000 then replicate 10 0 else le_bytes 10 w)
           @ le_bytes 6 p)"
  using fp_equals_zero_iff(3) [of w p]
  by (auto simp: encoding_FP fp_storage_def le_bytes_zero simp del: fp_equals_zero.simps)

text \<open>
  C1.  The claim asks that every floating point value equal to 0 send the hasher
  the bytes that positive zero sends, for every floating point type.  For
  \<^verbatim>\<open>long double\<close> the negative zero, in a parameter object whose padding bytes
  hold \<open>FF\<close>, compares equal to 0 and sends ten zero bytes and the six bytes
  \<open>FF\<close>; the positive zero, in a parameter object whose padding bytes hold
  \<open>00\<close>, sends sixteen zero bytes.
\<close>

theorem long_double_zero_sends_padding:
  "fp_equals_zero (Long_double 0x80000000000000000000 0xFFFFFFFFFFFF)
   \<and> encoding (FP (Long_double 0x80000000000000000000 0xFFFFFFFFFFFF))
       = Some [0, 0, 0, 0, 0, 0, 0, 0, 0, 0, 0xFF, 0xFF, 0xFF, 0xFF, 0xFF, 0xFF]
   \<and> encoding (FP (Long_double 0 0))
       = Some [0, 0, 0, 0, 0, 0, 0, 0, 0, 0, 0, 0, 0, 0, 0, 0]"
proof -
  have z: "fp_equals_zero (Long_double 0x80000000000000000000 0xFFFFFFFFFFFF)"
    by code_simp
  have p: "le_bytes 6 (0xFFFFFFFFFFFF :: 48 word) = [0xFF, 0xFF, 0xFF, 0xFF, 0xFF, 0xFF]"
    by code_simp
  have r: "replicate 10 (0 :: byte) = [0, 0, 0, 0, 0, 0, 0, 0, 0, 0]"
    by (simp add: numeral_eq_Suc)
  have q: "le_bytes 6 (0 :: 48 word) = [0, 0, 0, 0, 0, 0]"
    by (simp add: le_bytes_zero numeral_eq_Suc)
  have n: "encoding (FP (Long_double 0x80000000000000000000 0xFFFFFFFFFFFF))
       = Some [0, 0, 0, 0, 0, 0, 0, 0, 0, 0, 0xFF, 0xFF, 0xFF, 0xFF, 0xFF, 0xFF]"
    unfolding encoding_Long_double p r by simp
  have e: "encoding (FP (Long_double 0 0))
       = Some [0, 0, 0, 0, 0, 0, 0, 0, 0, 0, 0, 0, 0, 0, 0, 0]"
    unfolding encoding_Long_double q r by simp
  from z n e show ?thesis by blast
qed


section \<open>Arrays of non-trivially comparable elements\<close>

text \<open>
  A call of the array loop that returns has nothing left to visit, unless the
  array is empty: the first iteration calls the loop again on the whole array.
\<close>

lemma array_loop_returns_only_empty:
  "array_loop h a xs = Some y \<Longrightarrow> a \<noteq> [] \<longrightarrow> xs = []"
proof (erule array_loop.raw_induct [rotated, where P = "\<lambda>h a xs y. a \<noteq> [] \<longrightarrow> xs = []"])
  fix loop :: "'a \<Rightarrow> 'b list \<Rightarrow> 'b list \<Rightarrow> 'a option" and h a xs y
  assume IH: "\<And>h a xs y. loop h a xs = Some y \<Longrightarrow> a \<noteq> [] \<longrightarrow> xs = []"
    and step: "(case xs of [] \<Rightarrow> Some h
        | x # rest \<Rightarrow> Option.bind (loop h a a) (\<lambda>h'. loop h' a rest)) = Some y"
  show "a \<noteq> [] \<longrightarrow> xs = []"
  proof (cases xs)
    case Nil
    then show ?thesis by simp
  next
    case (Cons x rest)
    with step obtain h' where "loop h a a = Some h'"
      by (auto simp: bind_eq_Some_conv)
    then have "a \<noteq> [] \<longrightarrow> a = []"
      by (rule IH)
    then show ?thesis by simp
  qed
qed

lemma hash_append_array_diverges: "a \<noteq> [] \<Longrightarrow> hash_append_array h a = None"
  unfolding hash_append_array_def
  using array_loop_returns_only_empty [of h a a] by (cases "array_loop h a a") auto

lemma hash_append_array_Nil: "hash_append_array h [] = Some h"
  unfolding hash_append_array_def by (simp add: array_loop.simps)

lemma hash_append_array_eq: "hash_append_array h a = (if a = [] then Some h else None)"
  by (simp add: hash_append_array_diverges hash_append_array_Nil)

text \<open>
  C3.  The claim asks that the array overload hash each element once, in index
  order.  On the array of the two doubles 1.0 and 2.0 the call does not return
  and nothing is recorded, though each element alone is hashed as its eight
  bytes.
\<close>

theorem array_of_doubles_never_returns:
  "hash_append Debug (construct Debug)
      (Array [FP (Double 0x3FF0000000000000), FP (Double 0x4000000000000000)]) = None
   \<and> encoding (FP (Double 0x3FF0000000000000)) = Some [0, 0, 0, 0, 0, 0, 0xF0, 0x3F]
   \<and> encoding (FP (Double 0x4000000000000000)) = Some [0, 0, 0, 0, 0, 0, 0, 0x40]"
proof -
  have a: "hash_append Debug (construct Debug)
      (Array [FP (Double 0x3FF0000000000000), FP (Double 0x4000000000000000)]) = None"
    by (simp add: hash_append_array_diverges)
  have n1: "\<not> fp_equals_zero (Double 0x3FF0000000000000)"
    by code_simp
  have n2: "\<not> fp_equals_zero (Double 0x4000000000000000)"
    by code_simp
  have s1: "le_bytes 8 (0x3FF0000000000000 :: 64 word) = [0, 0, 0, 0, 0, 0, 0xF0, 0x3F]"
    by code_simp
  have s2: "le_bytes 8 (0x4000000000000000 :: 64 word) = [0, 0, 0, 0, 0, 0, 0, 0x40]"
    by code_simp
  have e1: "encoding (FP (Double 0x3FF0000000000000)) = Some [0, 0, 0, 0, 0, 0, 0xF0, 0x3F]"
    using n1 by (simp add: encoding_def Debug_simps debug_call_def debug_value_def fp_storage_def s1)
  have e2: "encoding (FP (Double 0x4000000000000000)) = Some [0, 0, 0, 0, 0, 0, 0, 0x40]"
    using n2 by (simp add: encoding_def Debug_simps debug_call_def debug_value_def fp_storage_def s2)
  from a e1 e2 show ?thesis by blast
qed


section \<open>What the debug hasher records\<close>

lemma debug_range:
  assumes "\<And>x h. x \<in> set xs \<Longrightarrow> hash_append Debug h x = map_option (appended h) (encoding x)"
  shows "hash_append_range Debug h xs =
    map_option (\<lambda>bss. appended h (concat bss)) (those (map encoding xs))"
  using assms
proof (induction xs arbitrary: h)
  case Nil
  show ?case by (simp add: appended_def)
next
  case (Cons x xs)
  have x: "hash_append Debug h x = map_option (appended h) (encoding x)"
    by (rule Cons.prems) simp
  show ?case
  proof (cases "encoding x")
    case None
    with x show ?thesis by simp
  next
    case (Some bs)
    have "hash_append_range Debug (appended h bs) xs =
        map_option (\<lambda>bss. appended (appended h bs) (concat bss)) (those (map encoding xs))"
      by (rule Cons.IH) (simp add: Cons.prems)
    with x Some show ?thesis
      by (simp add: appended_def option.map_comp comp_def)
  qed
qed

text \<open>
  Hashing a value into a debug hasher appends the encoding of the value to what
  the hasher holds, and does not return when the encoding does not exist.
\<close>

lemma debug_append: "hash_append Debug h v = map_option (appended h) (encoding v)"
proof (cases v)
  case (TC t)
  then show ?thesis
    by (simp add: encoding_def Debug_simps debug_call_def debug_value_def appended_def)
next
  case (FP t)
  then show ?thesis
    by (simp add: encoding_def Debug_simps debug_call_def debug_value_def appended_def Let_def)
next
  case (Array a)
  then show ?thesis
    by (simp add: encoding_def hash_append_array_eq debug_value_def Debug_simps appended_def)
qed

lemma hash_append_range_encoding:
  "hash_append_range Debug h xs =
     map_option (\<lambda>bss. appended h (concat bss)) (those (map encoding xs))"
  by (rule debug_range) (rule debug_append)

lemma those_map_Some: "those (map (\<lambda>x. Some (f x)) xs) = Some (map f xs)"
  by (induction xs) simp_all

lemma encoding_map_TC: "map encoding (map TC ts) = map (\<lambda>t. Some (storage t)) ts"
  by (simp add: encoding_TC comp_def)

lemma hash_append_range_TC:
  "hash_append_range Debug h (map TC ts) = Some (h\<lparr>buf := buf h @ concat (map storage ts)\<rparr>)"
  unfolding hash_append_range_encoding encoding_map_TC those_map_Some
  by (simp add: appended_def)


section \<open>Iterator ranges\<close>

text \<open>
  C4.  The iterator range overload on a sequence of trivially comparable scalars
  returns, and appends to the debug hasher the storage of the elements, one after
  the other in the order of the sequence, with nothing before, between or after
  them; the storage of an element is what the element appends when hashed alone.
  For elements of any hashable type the overload appends the encodings of the
  elements in that order, and does not return when one of them does not exist.
  The three integers 1, 2, 3 give \<open>01 00 00 00 02 00 00 00 03 00 00 00\<close>, and the
  six characters of abcdef give \<open>61 62 63 64 65 66\<close>.
\<close>

theorem range_is_concatenation:
  "hash_append_range Debug h (map TC ts) = Some (h\<lparr>buf := buf h @ concat (map storage ts)\<rparr>)
   \<and> map encoding (map TC ts) = map (\<lambda>t. Some (storage t)) ts
   \<and> hash_append_range Debug h xs =
       map_option (\<lambda>bss. h\<lparr>buf := buf h @ concat bss\<rparr>) (those (map encoding xs))
   \<and> hash_append_range Debug (construct Debug) (map TC [Int32 1, Int32 2, Int32 3])
       = Some \<lparr>buf = [1, 0, 0, 0, 2, 0, 0, 0, 3, 0, 0, 0]\<rparr>
   \<and> hash_append_range Debug (construct Debug)
         (map TC [Int8 0x61, Int8 0x62, Int8 0x63, Int8 0x64, Int8 0x65, Int8 0x66])
       = Some \<lparr>buf = [0x61, 0x62, 0x63, 0x64, 0x65, 0x66]\<rparr>"
proof -
  have chars: "concat (map storage [Int8 0x61, Int8 0x62, Int8 0x63, Int8 0x64, Int8 0x65, Int8 0x66])
      = [0x61, 0x62, 0x63, 0x64, 0x65, 0x66]"
    by (simp add: le_bytes_def upt_conv_Cons)
  have general: "hash_append_range Debug h xs =
      map_option (\<lambda>bss. h\<lparr>buf := buf h @ concat bss\<rparr>) (those (map encoding xs))"
    unfolding hash_append_range_encoding appended_def ..
  have rest: "hash_append_range Debug h (map TC ts) = Some (h\<lparr>buf := buf h @ concat (map storage ts)\<rparr>)
   \<and> map encoding (map TC ts) = map (\<lambda>t. Some (storage t)) ts
   \<and> hash_append_range Debug (construct Debug) (map TC [Int32 1, Int32 2, Int32 3])
       = Some \<lparr>buf = [1, 0, 0, 0, 2, 0, 0, 0, 3, 0, 0, 0]\<rparr>
   \<and> hash_append_range Debug (construct Debug)
         (map TC [Int8 0x61, Int8 0x62, Int8 0x63, Int8 0x64, Int8 0x65, Int8 0x66])
       = Some \<lparr>buf = [0x61, 0x62, 0x63, 0x64, 0x65, 0x66]\<rparr>"
    unfolding hash_append_range_TC encoding_map_TC storage_ints chars fresh_Debug by simp
  from general rest show ?thesis
    by blast
qed

text \<open>
  C10.  On an empty range the iterator range overload returns the hasher it was
  given, for every hash algorithm and every state: it makes no call.  For the
  debug hasher the recorded bytes are therefore the same before and after, and
  the overload for pointers, which calls the hasher with length 0, leaves it
  unchanged as well.
\<close>

theorem empty_range_unchanged:
  "hash_append_range H h [] = Some h
   \<and> map_option debug_value (hash_append_range Debug g []) = Some (debug_value g)
   \<and> hash_append_pointers Debug g [] = Some g"
  by (simp add: hash_append_pointers_def Debug_simps debug_call_def)


section \<open>Ranges of pointers\<close>

lemma length_le_storage: "length ts \<le> length (concat (map storage ts))"
proof (induction ts)
  case Nil
  show ?case by simp
next
  case (Cons t ts)
  have "1 \<le> sizeof t"
    by (cases t) simp_all
  with Cons show ?case
    by (simp add: length_storage)
qed

lemma hash_append_pointers_Debug:
  "hash_append_pointers Debug h ts =
     Some (h\<lparr>buf := buf h @ take (length ts) (concat (map storage ts))\<rparr>)"
  by (simp add: hash_append_pointers_def Debug_simps debug_call_def)

text \<open>
  The overload for arrays of trivially comparable elements sends the storage of
  all elements, as the iterator range overload does on them; so does the
  overload of the test program for vectors.
\<close>

lemma length_concat_storage: "length (concat (map storage a)) = sum_list (map sizeof a)"
  by (induction a) (simp_all add: length_storage)

lemma hash_append_tc_array_Debug:
  "hash_append_tc_array Debug h a = hash_append_range Debug h (map TC a)"
  by (simp add: hash_append_tc_array_def hash_append_range_TC Debug_simps debug_call_def
      length_concat_storage [symmetric])

lemma hash_append_vector_ints:
  "hash_append_vector Debug (construct Debug) (map TC [Int32 1, Int32 2, Int32 3])
     = Some \<lparr>buf = [1, 0, 0, 0, 2, 0, 0, 0, 3, 0, 0, 0]\<rparr>"
  unfolding hash_append_vector_def hash_append_range_TC storage_ints fresh_Debug ..

text \<open>For elements of one byte the two overloads agree.\<close>

lemma hash_append_pointers_bytes:
  assumes "\<forall>t \<in> set ts. sizeof t = 1"
  shows "hash_append_pointers Debug h ts = hash_append_range Debug h (map TC ts)"
proof -
  have "length (concat (map storage ts)) = length ts"
    using assms by (induction ts) (simp_all add: length_storage)
  then show ?thesis
    by (simp add: hash_append_pointers_Debug hash_append_range_TC)
qed

text \<open>
  C2.  The claim asks that the overload for pointers send the hasher the same
  bytes as the iterator range overload, \<open>(last - first) * sizeof(T)\<close> of them.
  On the three 32-bit integers 1, 2, 3 the overload for pointers records the
  three bytes \<open>01 00 00\<close>, and the iterator range overload the twelve bytes of
  the elements.
\<close>

theorem pointer_range_absorbs_count_bytes:
  "hash_append_pointers Debug (construct Debug) [Int32 1, Int32 2, Int32 3]
       = Some \<lparr>buf = [1, 0, 0]\<rparr>
   \<and> hash_append_range Debug (construct Debug) (map TC [Int32 1, Int32 2, Int32 3])
       = Some \<lparr>buf = [1, 0, 0, 0, 2, 0, 0, 0, 3, 0, 0, 0]\<rparr>"
proof -
  have p: "hash_append_pointers Debug (construct Debug) [Int32 1, Int32 2, Int32 3]
      = Some \<lparr>buf = [1, 0, 0]\<rparr>"
    unfolding hash_append_pointers_Debug storage_ints by (simp add: Debug_simps)
  have r: "hash_append_range Debug (construct Debug) (map TC [Int32 1, Int32 2, Int32 3])
       = Some \<lparr>buf = [1, 0, 0, 0, 2, 0, 0, 0, 3, 0, 0, 0]\<rparr>"
    unfolding hash_append_range_TC storage_ints fresh_Debug ..
  from p r show ?thesis ..
qed


section \<open>Several values\<close>




text \<open>
  When the last two arguments are pointers that select the overload for
  pointers, the variadic overload hashes the objects between them and neither of
  the two addresses: with the bytes \<open>11 22\<close> between \<open>p\<close> and \<open>q\<close>, the call
  \<^verbatim>\<open>hash_append(h, 5, p, q)\<close> records \<open>05 00 00 00 11 22\<close>.
\<close>

lemma variadic_pointer_range:
  "select M t1 t2 = Pointer_range us \<Longrightarrow>
     hash_append_variadic M H h t0 t1 [t2] =
       (case hash_append H h t0 of None \<Rightarrow> None | Some h' \<Rightarrow> hash_append_pointers H h' us)"
  by (simp add: hash_append_two_def split: option.splits)

lemma variadic_pointer_range_example:
  "hash_append_variadic (\<lambda>x y. Pointer_range [Int8 0x11, Int8 0x22]) Debug (construct Debug)
      (TC (Int32 5)) (TC (Ptr 0x1000)) [TC (Ptr 0x1002)]
     = Some \<lparr>buf = [5, 0, 0, 0, 0x11, 0x22]\<rparr>"
  by (simp add: hash_append_two_def select_def hash_append_pointers_def Debug_simps debug_call_def
      le_bytes_def upt_conv_Cons)










section \<open>The universal hash function\<close>

text \<open>Scalars and floating point values are hashed in finite time.\<close>

lemma hash_append_returns:
  "\<exists>h'. hash_append H h (TC t) = Some h'"
  "\<exists>h'. hash_append H h (FP x) = Some h'"
  by (simp_all add: Let_def)

text \<open>
  C7.  The claim asks that hashing a value twice, each time with a hasher of its
  own, give the same result.  The \<^verbatim>\<open>long double\<close> 1.0 is hashed through a copy
  of it, the parameter of the overload, and the padding bytes of that copy are
  sent with the value.  With padding bytes \<open>00\<close> in the one copy and \<open>FF\<close> in
  the other, two default-constructed debug hashers read different results with
  \<^verbatim>\<open>value()\<close>, though the bytes of the value are the same in both.
\<close>

theorem long_double_hashed_twice:
  "fp_value_bytes (Long_double 0x3FFF8000000000000000 0)
     = fp_value_bytes (Long_double 0x3FFF8000000000000000 0xFFFFFFFFFFFF)
   \<and> map_option (value_of Debug)
       (hash_append Debug (construct Debug) (FP (Long_double 0x3FFF8000000000000000 0)))
     = Some [0, 0, 0, 0, 0, 0, 0, 0x80, 0xFF, 0x3F, 0, 0, 0, 0, 0, 0]
   \<and> map_option (value_of Debug)
       (hash_append Debug (construct Debug)
          (FP (Long_double 0x3FFF8000000000000000 0xFFFFFFFFFFFF)))
     = Some [0, 0, 0, 0, 0, 0, 0, 0x80, 0xFF, 0x3F, 0xFF, 0xFF, 0xFF, 0xFF, 0xFF, 0xFF]"
proof -
  have v: "le_bytes 10 (0x3FFF8000000000000000 :: 80 word) = [0, 0, 0, 0, 0, 0, 0, 0x80, 0xFF, 0x3F]"
    by code_simp
  have p: "le_bytes 6 (0xFFFFFFFFFFFF :: 48 word) = [0xFF, 0xFF, 0xFF, 0xFF, 0xFF, 0xFF]"
    by code_simp
  have q: "le_bytes 6 (0 :: 48 word) = [0, 0, 0, 0, 0, 0]"
    by (simp add: le_bytes_zero numeral_eq_Suc)
  have n: "(0x3FFF8000000000000000 :: 80 word) \<noteq> 0
      \<and> (0x3FFF8000000000000000 :: 80 word) \<noteq> 0x80000000000000000000"
    by simp
  have e: "map_option (value_of Debug) (hash_append Debug (construct Debug) t) = encoding t" for t
    by (simp add: encoding_def Debug_simps)
  have a: "fp_value_bytes (Long_double 0x3FFF8000000000000000 0)
     = fp_value_bytes (Long_double 0x3FFF8000000000000000 0xFFFFFFFFFFFF)"
    by simp
  have b: "encoding (FP (Long_double 0x3FFF8000000000000000 0))
     = Some [0, 0, 0, 0, 0, 0, 0, 0x80, 0xFF, 0x3F, 0, 0, 0, 0, 0, 0]"
    unfolding encoding_Long_double v q using n by simp
  have c: "encoding (FP (Long_double 0x3FFF8000000000000000 0xFFFFFFFFFFFF))
     = Some [0, 0, 0, 0, 0, 0, 0, 0x80, 0xFF, 0x3F, 0xFF, 0xFF, 0xFF, 0xFF, 0xFF, 0xFF]"
    unfolding encoding_Long_double v p using n by simp
  from a b c show ?thesis
    unfolding e by blast
qed


text \<open>
  For an algorithm whose conversion to the result type is \<^verbatim>\<open>value()\<close>, the
  universal hash function is one \<open>hash_append\<close> on a fresh hasher, read with
  \<^verbatim>\<open>value()\<close>.
\<close>

lemma hash_by_value:
  "conversion H = Some (value_of H) \<Longrightarrow>
     hash H v = Inr (map_option (value_of H) (hash_append H (construct H) v))"
  by (simp add: hash_def finish_def)

text \<open>
  C8.  The claim asks that the universal hash function read the hasher with
  \<^verbatim>\<open>value()\<close> and return that.  It returns the hasher itself, converted; for
  the debug hasher and the integer 5 there is no conversion and so no result,
  where \<^verbatim>\<open>value()\<close> after the one \<open>hash_append\<close> is \<open>05 00 00 00\<close>.
\<close>

theorem hash_converts_instead_of_value:
  "hash Debug (TC (Int32 5)) = Inl No_conversion
   \<and> map_option (value_of Debug) (hash_append Debug (construct Debug) (TC (Int32 5)))
       = Some [5, 0, 0, 0]"
proof -
  have "storage (Int32 5) = [5, 0, 0, 0]"
    by (simp add: le_bytes_def upt_conv_Cons)
  then show ?thesis
    by (simp add: hash_def finish_def Debug_simps debug_call_def debug_value_def)
qed


section \<open>The trait\<close>

lemma trivially_comparable_remove_extent:
  "trivially_comparable user (remove_extent T) = trivially_comparable user T"
  by (induction T) simp_all

text \<open>
  C9.  The trait holds of every integral type and of every pointer type, of no
  floating point type, of an array type (of known or unknown bound) exactly when
  it holds of the element type, and of a user-defined type exactly when the
  program has specialised it so.  Its argument is a type and nothing else.
\<close>

theorem trivially_comparable_classifies:
  "trivially_comparable user (Integral_t k)
   \<and> trivially_comparable user (Pointer_t T)
   \<and> \<not> trivially_comparable user (Floating_t f)
   \<and> (trivially_comparable user (Array_t T n) \<longleftrightarrow> trivially_comparable user T)
   \<and> (trivially_comparable user (Unbounded_array_t T) \<longleftrightarrow> trivially_comparable user T)
   \<and> (trivially_comparable user (User_t c) \<longleftrightarrow> user c)"
  by (simp add: trivially_comparable_remove_extent)

end
